theory Spec2Isabelle
  imports Main
begin

section \<open>Strings and values\<close>

text \<open>
  Strings are character lists. The source's strings are sequences of UTF-16 code units;
  every string the source compares against (codes, colour names, the separators of the
  regular expressions) is ASCII, and the model reads a string one \<open>char\<close> at a time.
\<close>

text \<open>\<open>String.prototype.includes\<close>: the second string occurs as a contiguous part.\<close>

fun str_includes :: "string \<Rightarrow> string \<Rightarrow> bool" where
  "str_includes [] t = (t = [])"
| "str_includes (c # s) t = (take (length t) (c # s) = t \<or> str_includes s t)"

datatype js_error = TypeError | RangeError

text \<open>Sequencing of steps that may throw: the first exception ends the computation.\<close>

definition and_then :: "js_error + 'a \<Rightarrow> ('a \<Rightarrow> js_error + 'b) \<Rightarrow> js_error + 'b" where
  "and_then r f = (case r of Inl e \<Rightarrow> Inl e | Inr v \<Rightarrow> f v)"

text \<open>
  The values the configuration holds and the handler reads: \<open>undefined\<close>, \<open>null\<close>, a
  string, a plain object (its prototype is \<open>Object.prototype\<close>) with its own properties
  in insertion order, and \<open>JHost\<close>, any other value (a function, a prototype object, a
  number), known by a name.
\<close>

datatype jsval =
    Undefined
  | Null
  | JString string
  | JObject "(string \<times> jsval) list"
  | JHost string

text \<open>
  The source reads properties with \<open>v[k]\<close> and \<open>v.k\<close>. Such a read follows the prototype
  chain, reaches the members of strings and functions, and runs accessors, which may
  throw. What lies beyond an object's own properties belongs to the engine and not to
  this repository, so it is a parameter:
  \<^item> \<open>proto_member k\<close>: what \<open>o[k]\<close> yields for a plain object \<open>o\<close> without an own \<open>k\<close>;
  \<^item> \<open>string_member s k\<close>: what \<open>s[k]\<close> yields for a primitive string \<open>s\<close>;
  \<^item> \<open>host_member v k\<close>: what \<open>v[k]\<close> yields for the value named \<open>v\<close>;
  \<^item> \<open>host_truthy v\<close>: whether the value named \<open>v\<close> is truthy;
  \<^item> \<open>object_text\<close>, \<open>host_text\<close>: the string a template literal makes of a plain
    object and of a named value, or the exception the conversion throws;
  \<^item> \<open>number_text n\<close>: the string a template literal makes of an integer beyond
    \<open>2 ^ 53\<close>, where digits are rounded or an exponent is printed.
\<close>

record host =
  proto_member :: "string \<Rightarrow> js_error + jsval"
  string_member :: "string \<Rightarrow> string \<Rightarrow> js_error + jsval"
  host_member :: "string \<Rightarrow> string \<Rightarrow> js_error + jsval"
  host_truthy :: "string \<Rightarrow> bool"
  object_text :: "(string \<times> jsval) list \<Rightarrow> js_error + string"
  host_text :: "string \<Rightarrow> js_error + string"
  number_text :: "int \<Rightarrow> string"

text \<open>\<open>!!v\<close>.\<close>

fun truthy :: "host \<Rightarrow> jsval \<Rightarrow> bool" where
  "truthy h Undefined = False"
| "truthy h Null = False"
| "truthy h (JString s) = (s \<noteq> [])"
| "truthy h (JObject kvs) = True"
| "truthy h (JHost v) = host_truthy h v"

text \<open>\<open>v[k]\<close>: it throws on \<open>undefined\<close> and \<open>null\<close>.\<close>

fun read :: "host \<Rightarrow> jsval \<Rightarrow> string \<Rightarrow> js_error + jsval" where
  "read h Undefined k = Inl TypeError"
| "read h Null k = Inl TypeError"
| "read h (JString s) k = string_member h s k"
| "read h (JObject kvs) k = (case map_of kvs k of Some v \<Rightarrow> Inr v | None \<Rightarrow> proto_member h k)"
| "read h (JHost v) k = host_member h v k"

text \<open>\<open>v?.[k]\<close>: \<open>undefined\<close> when \<open>v\<close> is \<open>undefined\<close> or \<open>null\<close>.\<close>

fun opt_read :: "host \<Rightarrow> jsval \<Rightarrow> string \<Rightarrow> js_error + jsval" where
  "opt_read h Undefined k = Inr Undefined"
| "opt_read h Null k = Inr Undefined"
| "opt_read h v k = read h v k"


text \<open>A value inside a template literal.\<close>

fun to_text :: "host \<Rightarrow> jsval \<Rightarrow> js_error + string" where
  "to_text h Undefined = Inr ''undefined''"
| "to_text h Null = Inr ''null''"
| "to_text h (JString s) = Inr s"
| "to_text h (JObject kvs) = object_text h kvs"
| "to_text h (JHost v) = host_text h v"

text \<open>A string field that may be absent; \<open>a || b\<close> on such fields.\<close>

definition truthy_str :: "string option \<Rightarrow> bool" where
  "truthy_str a = (case a of None \<Rightarrow> False | Some s \<Rightarrow> s \<noteq> [])"

definition str_or :: "string option \<Rightarrow> string option \<Rightarrow> string option" where
  "str_or a b = (if truthy_str a then a else b)"

definition str_or_default :: "string option \<Rightarrow> string \<Rightarrow> string" where
  "str_or_default a d = (case a of None \<Rightarrow> d | Some s \<Rightarrow> if s = [] then d else s)"

section \<open>ObjectKeys.ts\<close>

text \<open>
  An object as the key functions see it: its own enumerable properties, which
  \<open>Object.keys\<close> lists, and the names the \<open>in\<close> operator finds besides them (own
  properties that are not enumerable and everything on the prototype chain).
\<close>

record 'v js_object =
  own_props :: "(string \<times> 'v) list"
  chain_keys :: "string list"

definition Object_keys :: "'v js_object \<Rightarrow> string list" where
  "Object_keys obj = map fst (own_props obj)"

definition key_in :: "string \<Rightarrow> 'v js_object \<Rightarrow> bool" where
  "key_in k obj = (k \<in> set (Object_keys obj) \<or> k \<in> set (chain_keys obj))"

text \<open>The property names of \<open>Object.prototype\<close>, which every object literal inherits.\<close>

definition object_prototype_keys :: "string list" where
  "object_prototype_keys =
     [''constructor'', ''hasOwnProperty'', ''isPrototypeOf'', ''propertyIsEnumerable'',
      ''toLocaleString'', ''toString'', ''valueOf'', ''__proto__'',
      ''__defineGetter__'', ''__defineSetter__'', ''__lookupGetter__'', ''__lookupSetter__'']"

text \<open>An object literal \<open>{k1: v1, ...}\<close>.\<close>

definition object_literal :: "(string \<times> 'v) list \<Rightarrow> 'v js_object" where
  "object_literal kvs = \<lparr>own_props = kvs, chain_keys = object_prototype_keys\<rparr>"

definition Keysamount :: "'v js_object \<Rightarrow> int" where
  "Keysamount obj = int (length (Object_keys obj))"

text \<open>\<open>max\<close> is \<open>None\<close> when the caller omits it (\<open>max === undefined\<close>).\<close>

definition KeysInRange :: "'v js_object \<Rightarrow> int \<Rightarrow> int option \<Rightarrow> bool" where
  "KeysInRange obj mn mx =
     (let keyCount = Keysamount obj;
          mx' = (case mx of None \<Rightarrow> mn | Some m \<Rightarrow> m)
      in keyCount \<ge> mn \<and> keyCount \<le> mx')"

definition KeysInRangeDetailed :: "'v js_object \<Rightarrow> int \<Rightarrow> int option \<Rightarrow> int" where
  "KeysInRangeDetailed obj mn mx =
     (let keyCount = Keysamount obj;
          mx' = (case mx of None \<Rightarrow> mn | Some m \<Rightarrow> m)
      in if keyCount < mn then - 1
         else if keyCount > mx' then 1
         else 0)"

text \<open>
  \<open>allowedSet.size\<close> counts the distinct elements of the two lists; the two loops
  return \<open>false\<close> at the first key that fails their test.
\<close>

definition AllowedKeys :: "'v js_object \<Rightarrow> string list \<Rightarrow> string list \<Rightarrow> bool" where
  "AllowedKeys obj keys optionalKeys =
     (let objKeys = Object_keys obj;
          allowedSet = remdups (keys @ optionalKeys)
      in if length objKeys > length allowedSet then False
         else if \<exists>key \<in> set keys. \<not> key_in key obj then False
         else if \<exists>key \<in> set objKeys. key \<notin> set allowedSet then False
         else True)"

section \<open>Config.ts\<close>

record prefs =
  noDupesAllowedof :: "string list option"
  acceptedLanguages :: "string list option"

text \<open>
  The module's two variables. \<open>configure\<close> stores whatever its argument holds, so
  either may be \<open>undefined\<close> afterwards.
\<close>

record config =
  runtimeResponses :: jsval
  runtimePrefs :: "prefs option"

definition initial_config :: config where
  "initial_config =
     \<lparr>runtimeResponses = JObject [],
      runtimePrefs = Some \<lparr>noDupesAllowedof = Some [], acceptedLanguages = Some [''en'']\<rparr>\<rparr>"


definition getResponses :: "config \<Rightarrow> jsval" where
  "getResponses c = runtimeResponses c"

definition getPrefs :: "config \<Rightarrow> prefs option" where
  "getPrefs c = runtimePrefs c"



section \<open>Colorlog.ts\<close>

subsection \<open>Regular expressions\<close>

text \<open>
  The three patterns of \<open>ColorRegex\<close> use character classes, sequence, alternation and
  repetition only, and each is anchored at both ends, so \<open>test\<close> decides whether the
  whole string belongs to the pattern's language. The language is computed with
  derivatives.
\<close>

datatype rx = Void | Eps | Cls "char list" | Cat rx rx | Alt rx rx | Star rx

fun nullable :: "rx \<Rightarrow> bool" where
  "nullable Void = False"
| "nullable Eps = True"
| "nullable (Cls cs) = False"
| "nullable (Cat r s) = (nullable r \<and> nullable s)"
| "nullable (Alt r s) = (nullable r \<or> nullable s)"
| "nullable (Star r) = True"

fun deriv :: "char \<Rightarrow> rx \<Rightarrow> rx" where
  "deriv c Void = Void"
| "deriv c Eps = Void"
| "deriv c (Cls cs) = (if c \<in> set cs then Eps else Void)"
| "deriv c (Cat r s) =
     (if nullable r then Alt (Cat (deriv c r) s) (deriv c s) else Cat (deriv c r) s)"
| "deriv c (Alt r s) = Alt (deriv c r) (deriv c s)"
| "deriv c (Star r) = Cat (deriv c r) (Star r)"

fun rx_test :: "rx \<Rightarrow> string \<Rightarrow> bool" where
  "rx_test r [] = nullable r"
| "rx_test r (c # s) = rx_test (deriv c r) s"

text \<open>\<open>r?\<close>, \<open>r+\<close>, \<open>r{n}\<close>, \<open>r{1,3}\<close> and a literal.\<close>

definition rx_opt :: "rx \<Rightarrow> rx" where
  "rx_opt r = Alt r Eps"

definition rx_plus :: "rx \<Rightarrow> rx" where
  "rx_plus r = Cat r (Star r)"

fun rx_times :: "nat \<Rightarrow> rx \<Rightarrow> rx" where
  "rx_times 0 r = Eps"
| "rx_times (Suc n) r = Cat r (rx_times n r)"

definition rx_one_to_three :: "rx \<Rightarrow> rx" where
  "rx_one_to_three r = Cat r (rx_opt (Cat r (rx_opt r)))"

fun rx_lit :: "string \<Rightarrow> rx" where
  "rx_lit [] = Eps"
| "rx_lit (c # s) = Cat (Cls [c]) (rx_lit s)"

text \<open>
  \<open>\s\<close>: tab, line feed, vertical tab, form feed, carriage return, space and the
  no-break space (the white space among the first 256 code units).
\<close>

definition space_chars :: "char list" where
  "space_chars = [CHR 0x09, CHR 0x0A, CHR 0x0B, CHR 0x0C, CHR 0x0D, CHR 0x20, CHR 0xA0]"

definition rx_spaces :: rx where
  "rx_spaces = Star (Cls space_chars)"

definition rx_digit :: rx where
  "rx_digit = Cls ''0123456789''"

definition rx_hexdigit :: rx where
  "rx_hexdigit = Cls ''ABCDEFabcdef0123456789''"

text \<open>\<open>/^#([A-Fa-f0-9]{3}|[A-Fa-f0-9]{4}|[A-Fa-f0-9]{6}|[A-Fa-f0-9]{8})$/\<close>\<close>

definition ColorRegex_hex :: rx where
  "ColorRegex_hex =
     Cat (Cls ''#'')
       (Alt (rx_times 3 rx_hexdigit)
         (Alt (rx_times 4 rx_hexdigit)
           (Alt (rx_times 6 rx_hexdigit) (rx_times 8 rx_hexdigit))))"

text \<open>
  \<open>/^rgba?\(\s*(\d{1,3}%?)\s*[\s,]\s*(\d{1,3}%?)\s*[\s,]\s*(\d{1,3}%?)
     (?:\s*[\s,/]\s*((?:0|1|0?\.\d+)(?:%?)))?\s*\)$/\<close>
\<close>

definition rx_channel :: rx where
  "rx_channel = Cat (rx_one_to_three rx_digit) (rx_opt (Cls ''%''))"

definition rx_separator :: "char list \<Rightarrow> rx" where
  "rx_separator extra = Cat rx_spaces (Cat (Cls (space_chars @ extra)) rx_spaces)"

definition rx_alpha :: rx where
  "rx_alpha =
     Cat (Alt (Cls ''0'') (Alt (Cls ''1'') (Cat (rx_opt (Cls ''0'')) (Cat (Cls ''.'') (rx_plus rx_digit)))))
       (rx_opt (Cls ''%''))"

definition ColorRegex_rgb :: rx where
  "ColorRegex_rgb =
     Cat (rx_lit ''rgb'') (Cat (rx_opt (Cls ''a'')) (Cat (Cls ''('')
       (Cat rx_spaces (Cat rx_channel
         (Cat (rx_separator '','') (Cat rx_channel
           (Cat (rx_separator '','') (Cat rx_channel
             (Cat (rx_opt (Cat (rx_separator '',/'') rx_alpha))
               (Cat rx_spaces (Cls '')'')))))))))))"

text \<open>
  The alternatives of \<open>ColorRegex.named\<close>, in the pattern's order. The pattern has the
  \<open>i\<close> flag: a letter matches in either case.
\<close>

definition named_colors :: "string list" where
  "named_colors =
     [''aliceblue'', ''antiquewhite'', ''aqua'', ''aquamarine'', ''azure'', ''beige'',
      ''bisque'', ''black'', ''blanchedalmond'', ''blue'', ''blueviolet'', ''brown'',
      ''burlywood'', ''cadetblue'', ''chartreuse'', ''chocolate'', ''coral'',
      ''cornflowerblue'', ''cornsilk'', ''crimson'', ''cyan'', ''darkblue'', ''darkcyan'',
      ''darkgoldenrod'', ''darkgray'', ''darkgreen'', ''darkgrey'', ''darkkhaki'',
      ''darkmagenta'', ''darkolivegreen'', ''darkorange'', ''darkorchid'', ''darkred'',
      ''darksalmon'', ''darkseagreen'', ''darkslateblue'', ''darkslategray'',
      ''darkslategrey'', ''darkturquoise'', ''darkviolet'', ''deeppink'', ''deepskyblue'',
      ''dimgray'', ''dimgrey'', ''dodgerblue'', ''firebrick'', ''floralwhite'',
      ''forestgreen'', ''fuchsia'', ''gainsboro'', ''ghostwhite'', ''gold'', ''goldenrod'',
      ''gray'', ''green'', ''greenyellow'', ''grey'', ''honeydew'', ''hotpink'',
      ''indianred'', ''indigo'', ''ivory'', ''khaki'', ''lavender'', ''lavenderblush'',
      ''lawngreen'', ''lemonchiffon'', ''lightblue'', ''lightcoral'', ''lightcyan'',
      ''lightgoldenrodyellow'', ''lightgray'', ''lightgreen'', ''lightgrey'',
      ''lightpink'', ''lightsalmon'', ''lightseagreen'', ''lightskyblue'', ''mineskyblue'',
      ''lightslategray'', ''lightslategrey'', ''lightsteelblue'', ''lightyellow'',
      ''limegreen'', ''linen'', ''magenta'', ''mediumaquamarine'', ''mediumblue'',
      ''mediumorchid'', ''mediumpurple'', ''mediumseagreen'', ''mediumslateblue'',
      ''mediumspringgreen'', ''mediumturquoise'', ''mediumvioletred'', ''midnightblue'',
      ''mintcream'', ''mistyrose'', ''moccasin'', ''navajowhite'', ''oldlace'',
      ''olivedrab'', ''orangered'', ''palegoldenrod'', ''palegreen'', ''palevioletred'']"

definition ascii_lower :: "char \<Rightarrow> char" where
  "ascii_lower c =
     (case List.find (\<lambda>p. fst p = c) (zip ''ABCDEFGHIJKLMNOPQRSTUVWXYZ'' ''abcdefghijklmnopqrstuvwxyz'') of
        Some p \<Rightarrow> snd p
      | None \<Rightarrow> c)"

definition ColorRegex_named_test :: "string \<Rightarrow> bool" where
  "ColorRegex_named_test color = (map ascii_lower color \<in> set named_colors)"

definition isValid :: "string \<Rightarrow> bool" where
  "isValid color =
     (rx_test ColorRegex_hex color \<or> rx_test ColorRegex_rgb color \<or> ColorRegex_named_test color)"

text \<open>
  One call of \<open>console.log\<close> is the list of its arguments. A valid colour is printed
  with the \<open>%c\<close> directive and a style argument, an invalid one as the bare message.
\<close>

definition Coloredlog :: "string \<Rightarrow> string \<Rightarrow> string list" where
  "Coloredlog message color =
     (if isValid color
      then [''%c'' @ message, ''color: '' @ color @ ''; font-weight: bold;'']
      else [message])"

subsection \<open>The variant with ANSI output\<close>

text \<open>
  A second \<open>Coloredlog\<close> stands after the handler in \<open>handleError.ts\<close>. It takes a
  \<open>bolded\<close> flag, writes ANSI escape sequences outside a browser, and spells one
  alternative of the named pattern differently.
\<close>

definition named_colors_ansi :: "string list" where
  "named_colors_ansi =
     [''aliceblue'', ''antiquewhite'', ''aqua'', ''aquamarine'', ''azure'', ''beige'',
      ''bisque'', ''black'', ''blanchedalmond'', ''blue'', ''blueviolet'', ''brown'',
      ''burlywood'', ''cadetblue'', ''chartreuse'', ''chocolate'', ''coral'',
      ''cornflowerblue'', ''cornsilk'', ''crimson'', ''cyan'', ''darkblue'', ''darkcyan'',
      ''darkgoldenrod'', ''darkgray'', ''darkgreen'', ''darkgrey'', ''darkkhaki'',
      ''darkmagenta'', ''darkolivegreen'', ''darkorange'', ''darkorchid'', ''darkred'',
      ''darksalmon'', ''darkseagreen'', ''darkslateblue'', ''darkslategray'',
      ''darkslategrey'', ''darkturquoise'', ''darkviolet'', ''deeppink'', ''deepskyblue'',
      ''dimgray'', ''dimgrey'', ''dodgerblue'', ''firebrick'', ''floralwhite'',
      ''forestgreen'', ''fuchsia'', ''gainsboro'', ''ghostwhite'', ''gold'', ''goldenrod'',
      ''gray'', ''green'', ''greenyellow'', ''grey'', ''honeydew'', ''hotpink'',
      ''indianred'', ''indigo'', ''ivory'', ''khaki'', ''lavender'', ''lavenderblush'',
      ''lawngreen'', ''lemonchiffon'', ''lightblue'', ''lightcoral'', ''lightcyan'',
      ''lightgoldenrodyellow'', ''lightgray'', ''lightgreen'', ''lightgrey'',
      ''lightpink'', ''lightsalmon'', ''lightseagreen'', ''lightskyblue'', ''mineskyblue'',
      ''lightslategray'', ''lightslategrey'', ''lightsteelblue'', ''lightyellow'',
      ''limegreen'', ''linen'', ''magenta'', ''mediumaquamarine'', ''mediumblue'',
      ''mediumorchid'', ''mediumpurple'', ''mediumseagreen'', ''mediumslateblue'',
      ''mediumspringgreen'', ''mediumturquoise'', ''mediumvioletred'', ''midnightblue'',
      ''mincream'', ''mistyrose'', ''moccasin'', ''navajowhite'', ''oldlace'',
      ''olivedrab'', ''orangered'', ''palegoldenrod'', ''palegreen'', ''palevioletred'']"

definition isValid_ansi :: "string \<Rightarrow> bool" where
  "isValid_ansi color =
     (rx_test ColorRegex_hex color \<or> rx_test ColorRegex_rgb color
      \<or> map ascii_lower color \<in> set named_colors_ansi)"

definition esc :: char where
  "esc = CHR 0x1B"

definition namedAnsi :: "(string \<times> string) list" where
  "namedAnsi =
     [(''black'', esc # ''[30m''), (''red'', esc # ''[31m''), (''green'', esc # ''[32m''),
      (''yellow'', esc # ''[33m''), (''blue'', esc # ''[34m''), (''magenta'', esc # ''[35m''),
      (''cyan'', esc # ''[36m''), (''white'', esc # ''[37m''), (''gray'', esc # ''[90m''),
      (''grey'', esc # ''[90m'')]"

text \<open>Decimal rendering of a number in a template literal.\<close>

definition digit_char :: "nat \<Rightarrow> char" where
  "digit_char d = ''0123456789'' ! (d mod 10)"

function show_nat :: "nat \<Rightarrow> string" where
  "show_nat n =
     (if n < 10 then [digit_char n] else show_nat (n div 10) @ [digit_char (n mod 10)])"
  by pat_completeness auto
termination
  by (relation "measure id") auto

declare show_nat.simps [simp del]

definition show_int :: "int \<Rightarrow> string" where
  "show_int i = (if i < 0 then ''-'' @ show_nat (nat (- i)) else show_nat (nat i))"

text \<open>\<open>s.replace(c, t)\<close> with a one-character pattern: the first occurrence only.\<close>

fun replace_first :: "char \<Rightarrow> string \<Rightarrow> string \<Rightarrow> string" where
  "replace_first c t [] = []"
| "replace_first c t (x # s) = (if x = c then t @ s else x # replace_first c t s)"

text \<open>
  \<open>hexToRgb\<close> is called on strings that passed the hex pattern only, so every character
  after the \<open>#\<close> is a hex digit; \<open>hex_value\<close> is the digit's value.
\<close>

definition hex_value :: "char \<Rightarrow> nat" where
  "hex_value c =
     (case List.find (\<lambda>p. fst p = c)
             (zip ''0123456789abcdefABCDEF''
                  [0, 1, 2, 3, 4, 5, 6, 7, 8, 9, 10, 11, 12, 13, 14, 15, 10, 11, 12, 13, 14, 15]) of
        Some p \<Rightarrow> snd p
      | None \<Rightarrow> 0)"

definition parseInt16 :: "string \<Rightarrow> nat" where
  "parseInt16 s = foldl (\<lambda>acc c. 16 * acc + hex_value c) 0 s"

definition hexToRgb :: "string \<Rightarrow> (nat \<times> nat \<times> nat) option" where
  "hexToRgb v =
     (let clean = replace_first (CHR ''#'') [] v in
      if length clean = 3 \<or> length clean = 4
      then Some (parseInt16 [clean ! 0, clean ! 0],
                 parseInt16 [clean ! 1, clean ! 1],
                 parseInt16 [clean ! 2, clean ! 2])
      else if length clean = 6 \<or> length clean = 8
      then Some (parseInt16 (take 2 clean),
                 parseInt16 (take 2 (drop 2 clean)),
                 parseInt16 (take 2 (drop 4 clean)))
      else None)"

definition truecolor :: "nat \<times> nat \<times> nat \<Rightarrow> string" where
  "truecolor rgb =
     (case rgb of (r, g, b) \<Rightarrow>
        esc # ''[38;2;'' @ show_nat r @ '';'' @ show_nat g @ '';'' @ show_nat b @ ''m'')"

text \<open>
  Where the variant runs. \<open>rgbStringToRgb\<close> reads the three channels of a functional
  colour and scales a percentage in floating point; it is a parameter here.
\<close>

record console_env =
  isBrowser :: bool
  rgbStringToRgb :: "string \<Rightarrow> (nat \<times> nat \<times> nat) option"

definition colorToAnsi :: "console_env \<Rightarrow> string \<Rightarrow> string option" where
  "colorToAnsi env v =
     (case map_of namedAnsi (map ascii_lower v) of
        Some a \<Rightarrow> Some a
      | None \<Rightarrow>
          (case (if rx_test ColorRegex_hex v then hexToRgb v else None) of
             Some rgb \<Rightarrow> Some (truecolor rgb)
           | None \<Rightarrow>
               (case (if rx_test ColorRegex_rgb v then rgbStringToRgb env v else None) of
                  Some rgb \<Rightarrow> Some (truecolor rgb)
                | None \<Rightarrow> None)))"

definition Coloredlog_ansi :: "console_env \<Rightarrow> string \<Rightarrow> string \<Rightarrow> bool \<Rightarrow> string list" where
  "Coloredlog_ansi env message color bolded =
     (if isValid_ansi color
      then (if isBrowser env
            then [''%c'' @ message,
                  ''color: '' @ color @ ''; font-weight: '' @ (if bolded then ''bold'' else ''normal'') @ '';'']
            else (case colorToAnsi env color of
                    Some ansi \<Rightarrow>
                      [ansi @ (if bolded then esc # ''[1m'' else []) @ message @ esc # ''[0m'']
                  | None \<Rightarrow>
                      if bolded then [esc # ''[1m'' @ message @ esc # ''[0m''] else [message]))
      else (if bolded then [esc # ''[1m'' @ message @ esc # ''[0m''] else [message]))"

section \<open>handleError.ts\<close>

text \<open>
  The error object and the request, with the fields the handler reads. A field is
  \<open>None\<close> when the object does not have it. An element of \<open>err.errors\<close> is \<open>None\<close> when
  it is \<open>null\<close> or \<open>undefined\<close>.
\<close>

record field_error =
  fe_param :: "string option"
  fe_path :: "string option"

record js_err =
  err_status :: "int option"
  err_code :: "string option"
  err_message :: "string option"
  err_errors :: "field_error option list option"
  err_stack :: "string option"

record request =
  req_lang :: "string option"
  req_language :: "string option"
  req_headers :: "(string \<times> string) list option"
  req_method :: "string option"
  req_originalUrl :: "string option"
  req_url :: "string option"
  req_id :: "string option"
  req_requestId :: "string option"

text \<open>What the handler does to the outside, in order.\<close>

record json_body =
  body_status :: string
  body_code :: string
  body_message :: jsval

datatype effect =
    ConsoleLog "string list"
  | ResStatus int
  | ResJson json_body
  | NextCall

text \<open>
  \<open>req.lang || req.language || (req.headers['accept-language'] ? ... : 'en')\<close>.
  Reading a header of a request without \<open>headers\<close> throws.
\<close>

definition header_lang :: "request \<Rightarrow> js_error + string" where
  "header_lang req =
     (case req_headers req of
        None \<Rightarrow> Inl TypeError
      | Some h \<Rightarrow>
          (case map_of h ''accept-language'' of
             None \<Rightarrow> Inr ''en''
           | Some v \<Rightarrow> if v = [] then Inr ''en'' else Inr (takeWhile (\<lambda>c. c \<noteq> CHR '','') v)))"

definition detect_lang :: "request \<Rightarrow> js_error + string" where
  "detect_lang req =
     (case str_or (req_lang req) (req_language req) of
        None \<Rightarrow> header_lang req
      | Some l \<Rightarrow> if l = [] then header_lang req else Inr l)"

definition statusCode_of :: "js_err \<Rightarrow> int" where
  "statusCode_of err = (case err_status err of None \<Rightarrow> 500 | Some n \<Rightarrow> if n = 0 then 500 else n)"

definition code_of :: "js_err \<Rightarrow> string" where
  "code_of err = str_or_default (err_code err) ''INTERNAL_SERVER_ERROR''"

definition rawErrorMessage_of :: "js_err \<Rightarrow> string" where
  "rawErrorMessage_of err = str_or_default (err_message err) []"

definition serverDefaultMessages :: jsval where
  "serverDefaultMessages =
     JObject
      [(''INTERNAL_SERVER_ERROR'', JString ''An internal server error occurred.''),
       (''DATABASE_ERROR'', JString ''A database error occurred.''),
       (''SERVICE_UNAVAILABLE'', JString ''Service is temporarily unavailable.''),
       (''BAD_GATEWAY'', JString ''Bad gateway.''),
       (''GATEWAY_TIMEOUT'', JString ''Gateway timed out.''),
       (''NOT_IMPLEMENTED'', JString ''This feature is not implemented.''),
       (''NETWORK_ERROR'', JString ''A network error occurred.''),
       (''TIMEOUT'', JString ''The operation timed out.'')]"

text \<open>\<open>responses[lang] || responses['en'] || {}\<close>.\<close>

definition possibleResponses_of :: "host \<Rightarrow> jsval \<Rightarrow> string \<Rightarrow> js_error + jsval" where
  "possibleResponses_of h responses lang =
     and_then (read h responses lang) (\<lambda>a.
       if truthy h a then Inr a
       else and_then (read h responses ''en'') (\<lambda>b.
         if truthy h b then Inr b else Inr (JObject [])))"

text \<open>
  \<open>possibleResponses.dupes?.[field]\<close>, \<open>possibleResponses.validation?.[fieldName]\<close> and
  \<open>possibleResponses.general?.error\<close>.
\<close>

definition dupes_entry :: "host \<Rightarrow> jsval \<Rightarrow> string \<Rightarrow> js_error + jsval" where
  "dupes_entry h pr field = and_then (read h pr ''dupes'') (\<lambda>d. opt_read h d field)"

definition validation_entry :: "host \<Rightarrow> jsval \<Rightarrow> string \<Rightarrow> js_error + jsval" where
  "validation_entry h pr fieldName =
     and_then (read h pr ''validation'') (\<lambda>v. opt_read h v fieldName)"

definition general_error :: "host \<Rightarrow> jsval \<Rightarrow> js_error + jsval" where
  "general_error h pr = and_then (read h pr ''general'') (\<lambda>g. opt_read h g ''error'')"

text \<open>
  The loop over \<open>noDupesof\<close>: the first field that the raw message contains ends it, with
  whatever \<open>possibleResponses.dupes?.[field]\<close> is. \<open>responseMessage\<close> starts as \<open>''\<close>.
\<close>

fun scan_dupes :: "host \<Rightarrow> jsval \<Rightarrow> string \<Rightarrow> string list \<Rightarrow> js_error + jsval" where
  "scan_dupes h pr raw [] = Inr (JString [])"
| "scan_dupes h pr raw (field # rest) =
     (if str_includes raw field then dupes_entry h pr field
      else scan_dupes h pr raw rest)"

text \<open>A property key from a value that may be undefined.\<close>

definition key_of :: "string option \<Rightarrow> string" where
  "key_of k = (case k of None \<Rightarrow> ''undefined'' | Some s \<Rightarrow> s)"

text \<open>
  The loop over \<open>err.errors\<close>: the first field with a truthy entry ends it, with
  \<open>possibleResponses.validation[fieldName]\<close>. Reading \<open>param\<close> of an element that is
  \<open>null\<close> or \<open>undefined\<close> throws.
\<close>

fun scan_validation :: "host \<Rightarrow> jsval \<Rightarrow> field_error option list \<Rightarrow> js_error + jsval" where
  "scan_validation h pr [] = Inr (JString [])"
| "scan_validation h pr (fieldError # rest) =
     (case fieldError of
        None \<Rightarrow> Inl TypeError
      | Some fe \<Rightarrow>
          (case validation_entry h pr (key_of (str_or (fe_param fe) (fe_path fe))) of
             Inl e \<Rightarrow> Inl e
           | Inr x \<Rightarrow>
               if truthy h x
               then and_then (read h pr ''validation'')
                      (\<lambda>v. read h v (key_of (str_or (fe_param fe) (fe_path fe))))
               else scan_validation h pr rest))"

definition dup_entry :: "string \<Rightarrow> string \<Rightarrow> bool" where
  "dup_entry code raw = (code = ''ER_DUP_ENTRY'' \<or> str_includes raw ''ER_DUP_ENTRY'')"

text \<open>
  The three branches that set \<open>responseMessage\<close> first. \<open>prefs.noDupesAllowedof\<close> is read
  in the first branch only, and throws there when \<open>prefs\<close> is undefined.
\<close>

definition primary_message ::
  "host \<Rightarrow> jsval \<Rightarrow> prefs option \<Rightarrow> string \<Rightarrow> string \<Rightarrow> field_error option list option
   \<Rightarrow> js_error + jsval" where
  "primary_message h pr prefs code raw errors =
     (if dup_entry code raw
      then (case prefs of
              None \<Rightarrow> Inl TypeError
            | Some p \<Rightarrow>
                scan_dupes h pr raw (case noDupesAllowedof p of None \<Rightarrow> [] | Some fs \<Rightarrow> fs))
      else (case (if code = ''VALIDATION_ERROR'' then errors else None) of
              Some es \<Rightarrow> scan_validation h pr es
            | None \<Rightarrow> Inr (JString raw)))"

text \<open>
  The block under \<open>if (!responseMessage)\<close>. Its last branch is
  \<open>possibleResponses.general?.error || serverDefaultMessages['INTERNAL_SERVER_ERROR']\<close>;
  the built-in table is read at the code for a status of 500 or more only.
\<close>

definition general_or_default :: "host \<Rightarrow> jsval \<Rightarrow> js_error + jsval" where
  "general_or_default h pr =
     and_then (general_error h pr) (\<lambda>e.
       if truthy h e then Inr e else read h serverDefaultMessages ''INTERNAL_SERVER_ERROR'')"

definition fallback_message :: "host \<Rightarrow> jsval \<Rightarrow> int \<Rightarrow> string \<Rightarrow> js_error + jsval" where
  "fallback_message h pr statusCode code =
     and_then (read h pr code) (\<lambda>a.
       if truthy h a then read h pr code
       else if statusCode \<ge> 500
       then and_then (read h serverDefaultMessages code) (\<lambda>b.
              if truthy h b then read h serverDefaultMessages code
              else general_or_default h pr)
       else general_or_default h pr)"

definition userCausedCodes :: "string list" where
  "userCausedCodes =
     [''VALIDATION_ERROR'', ''ER_DUP_ENTRY'', ''BAD_REQUEST'', ''UNAUTHORIZED'', ''FORBIDDEN'',
      ''NOT_FOUND'', ''CONFLICT'', ''METHOD_NOT_ALLOWED'', ''NOT_ACCEPTABLE'',
      ''UNSUPPORTED_MEDIA_TYPE'', ''PAYLOAD_TOO_LARGE'', ''UNPROCESSABLE_ENTITY'',
      ''TOO_MANY_REQUESTS'']"

definition isUserError :: "int \<Rightarrow> string \<Rightarrow> bool" where
  "isUserError statusCode code =
     ((statusCode \<ge> 400 \<and> statusCode < 500) \<or> code \<in> set userCausedCodes)"

text \<open>\<open>String.prototype.trim\<close>.\<close>

definition js_trim :: "string \<Rightarrow> string" where
  "js_trim s =
     rev (dropWhile (\<lambda>c. c \<in> set space_chars) (rev (dropWhile (\<lambda>c. c \<in> set space_chars) s)))"

definition routeInfo_of :: "request \<Rightarrow> string" where
  "routeInfo_of req =
     js_trim (str_or_default (req_method req) [] @ '' '' @
              str_or_default (str_or (req_originalUrl req) (req_url req)) [])"

definition requestId_of :: "request \<Rightarrow> string" where
  "requestId_of req = str_or_default (str_or (req_id req) (req_requestId req)) []"

text \<open>
  The status inside a template literal: its decimal digits up to \<open>2 ^ 53\<close>, and what the
  engine prints beyond.
\<close>

definition status_text :: "host \<Rightarrow> int \<Rightarrow> string" where
  "status_text h n =
     (if - 9007199254740992 \<le> n \<and> n \<le> 9007199254740992 then show_int n else number_text h n)"

text \<open>
  The resolved message inside a template literal. The report is written only when this
  conversion does not throw.
\<close>

definition message_text :: "host \<Rightarrow> jsval \<Rightarrow> string" where
  "message_text h m = (case to_text h m of Inl e \<Rightarrow> [] | Inr t \<Rightarrow> t)"

text \<open>
  The lines of the report with the colour each is passed with. \<open>now\<close> is what
  \<open>new Date().toISOString()\<close> returns.
\<close>

definition error_report ::
  "host \<Rightarrow> string \<Rightarrow> js_err \<Rightarrow> request \<Rightarrow> jsval \<Rightarrow> (string \<times> string) list" where
  "error_report h now err req responseMessage =
     [(''===================== ERROR REPORT ====================='', ''red''),
      (''Time: '' @ replace_first (CHR ''Z'') [] (replace_first (CHR ''T'') '' '' now), ''yellow'')]
     @ (if routeInfo_of req \<noteq> [] then [(''Route: '' @ routeInfo_of req, ''yellow'')] else [])
     @ (if requestId_of req \<noteq> [] then [(''RequestId: '' @ requestId_of req, ''yellow'')] else [])
     @ [(''Status: '' @ status_text h (statusCode_of err), ''magenta''),
        (''Code: '' @ code_of err, ''magenta''),
        (''UserMessage: '' @ message_text h responseMessage, ''cyan''),
        (''RawMessage: '' @ rawErrorMessage_of err, ''white''),
        (''Stack:'', ''gray''),
        (str_or_default (err_stack err) ''N/A'', ''gray''),
        (''========================================================'', ''red'')]"

text \<open>
  The handler. \<open>h\<close> is the engine, \<open>log\<close> the imported \<open>Coloredlog\<close>, \<open>c\<close> the state of
  the configuration module. The result is the exception thrown or the effects in order;
  the console lines written before an exception are not kept.
\<close>

definition errorHandler ::
  "host \<Rightarrow> (string \<Rightarrow> string \<Rightarrow> string list) \<Rightarrow> config \<Rightarrow> string \<Rightarrow> js_err \<Rightarrow> request
   \<Rightarrow> js_error + effect list" where
  "errorHandler h log c now err req =
     (let responses = getResponses c;
          prefs = getPrefs c
      in and_then (detect_lang req) (\<lambda>lang.
           let statusCode = statusCode_of err;
               code = code_of err;
               rawErrorMessage = rawErrorMessage_of err
           in and_then (possibleResponses_of h responses lang) (\<lambda>possibleResponses.
                and_then (primary_message h possibleResponses prefs code rawErrorMessage
                            (err_errors err)) (\<lambda>m.
                  and_then (if \<not> truthy h m
                            then fallback_message h possibleResponses statusCode code
                            else Inr m) (\<lambda>responseMessage.
                    and_then (if \<not> isUserError statusCode code
                              then and_then (to_text h responseMessage) (\<lambda>t.
                                     Inr (map (\<lambda>line. ConsoleLog (log (fst line) (snd line)))
                                            (error_report h now err req responseMessage)))
                              else Inr []) (\<lambda>logged.
                      Inr (logged
                           @ [ResStatus statusCode,
                              ResJson \<lparr>body_status = ''error'', body_code = code,
                                       body_message = responseMessage\<rparr>])))))))"







section \<open>A standard engine\<close>

text \<open>
  The built-in objects a catalog of strings and plain objects can reach by string keys,
  as ECMAScript 2023 has them: \<open>Object.prototype\<close>, the functions it holds, and the
  members of primitive strings. A function or prototype object is named by its path, a
  number by its digits. The table describes reads on \<open>Object.prototype\<close> and on the
  functions a plain object inherits; reads on other named values yield \<open>undefined\<close>
  here, and \<open>number_text\<close> answers with the digits. The theorems below that do not
  name \<open>std_host\<close> hold for every engine.
\<close>

definition std_methods :: "string list" where
  "std_methods =
     [''hasOwnProperty'', ''isPrototypeOf'', ''propertyIsEnumerable'', ''toLocaleString'',
      ''toString'', ''valueOf'', ''__defineGetter__'', ''__defineSetter__'',
      ''__lookupGetter__'', ''__lookupSetter__'']"

text \<open>
  \<open>o[k]\<close> where the plain object \<open>o\<close> has no own \<open>k\<close>: the constructor, the prototype
  itself through the \<open>__proto__\<close> accessor, or a method of \<open>Object.prototype\<close>.
\<close>

definition std_proto_member :: "string \<Rightarrow> js_error + jsval" where
  "std_proto_member k =
     (if k = ''constructor'' then Inr (JHost ''Object'')
      else if k = ''__proto__'' then Inr (JHost ''Object.prototype'')
      else if k \<in> set std_methods then Inr (JHost (''Object.prototype.'' @ k))
      else Inr Undefined)"

definition std_functions :: "string list" where
  "std_functions = ''Object'' # map (\<lambda>m. ''Object.prototype.'' @ m) std_methods"

text \<open>The \<open>name\<close> and the \<open>length\<close> of these functions.\<close>

definition std_name :: "string \<Rightarrow> string" where
  "std_name v = rev (takeWhile (\<lambda>c. c \<noteq> CHR ''.'') (rev v))"

definition std_arity :: "string \<Rightarrow> nat" where
  "std_arity v =
     (if v \<in> set [''Object.prototype.toLocaleString'', ''Object.prototype.toString'',
                  ''Object.prototype.valueOf''] then 0
      else if v \<in> set [''Object.prototype.__defineGetter__'', ''Object.prototype.__defineSetter__'']
      then 2
      else 1)"

definition object_static_keys :: "string list" where
  "object_static_keys =
     [''assign'', ''create'', ''defineProperties'', ''defineProperty'', ''entries'', ''freeze'',
      ''fromEntries'', ''getOwnPropertyDescriptor'', ''getOwnPropertyDescriptors'',
      ''getOwnPropertyNames'', ''getOwnPropertySymbols'', ''getPrototypeOf'', ''hasOwn'', ''is'',
      ''isExtensible'', ''isFrozen'', ''isSealed'', ''keys'', ''preventExtensions'', ''seal'',
      ''setPrototypeOf'', ''values'']"

definition function_prototype_keys :: "string list" where
  "function_prototype_keys = [''apply'', ''bind'', ''call'', ''toString'']"

text \<open>
  \<open>v[k]\<close> for a function \<open>v\<close> of the table and for \<open>Object.prototype\<close>. The accessors
  \<open>caller\<close> and \<open>arguments\<close> of \<open>Function.prototype\<close> throw.
\<close>

definition std_host_member :: "string \<Rightarrow> string \<Rightarrow> js_error + jsval" where
  "std_host_member v k =
     (if v = ''Object.prototype''
      then (if k = ''__proto__'' then Inr Null else std_proto_member k)
      else if v \<in> set std_functions
      then (if k = ''caller'' \<or> k = ''arguments'' then Inl TypeError
            else if k = ''name'' then Inr (JString (std_name v))
            else if k = ''length'' then Inr (JHost (show_nat (std_arity v)))
            else if v = ''Object'' \<and> k = ''prototype'' then Inr (JHost ''Object.prototype'')
            else if v = ''Object'' \<and> k \<in> set object_static_keys then Inr (JHost (''Object.'' @ k))
            else if k = ''__proto__'' then Inr (JHost ''Function.prototype'')
            else if k = ''constructor'' then Inr (JHost ''Function'')
            else if k \<in> set function_prototype_keys then Inr (JHost (''Function.prototype.'' @ k))
            else std_proto_member k)
      else Inr Undefined)"

definition string_prototype_keys :: "string list" where
  "string_prototype_keys =
     [''anchor'', ''at'', ''big'', ''blink'', ''bold'', ''charAt'', ''charCodeAt'', ''codePointAt'',
      ''concat'', ''endsWith'', ''fixed'', ''fontcolor'', ''fontsize'', ''includes'', ''indexOf'',
      ''isWellFormed'', ''italics'', ''lastIndexOf'', ''link'', ''localeCompare'', ''match'',
      ''matchAll'', ''normalize'', ''padEnd'', ''padStart'', ''repeat'', ''replace'',
      ''replaceAll'', ''search'', ''slice'', ''small'', ''split'', ''startsWith'', ''strike'',
      ''sub'', ''substr'', ''substring'', ''sup'', ''toLocaleLowerCase'', ''toLocaleUpperCase'',
      ''toLowerCase'', ''toString'', ''toUpperCase'', ''toWellFormed'', ''trim'', ''trimEnd'',
      ''trimLeft'', ''trimRight'', ''trimStart'', ''valueOf'']"

text \<open>\<open>s[k]\<close> for a primitive string: its length, a character, or an inherited member.\<close>

definition std_string_member :: "string \<Rightarrow> string \<Rightarrow> js_error + jsval" where
  "std_string_member s k =
     (if k = ''length'' then Inr (JHost (show_nat (length s)))
      else (case List.find (\<lambda>i. show_nat i = k) [0..<length s] of
              Some i \<Rightarrow> Inr (JString [s ! i])
            | None \<Rightarrow>
                if k = ''constructor'' then Inr (JHost ''String'')
                else if k = ''__proto__'' then Inr (JHost ''String.prototype'')
                else if k \<in> set string_prototype_keys then Inr (JHost (''String.prototype.'' @ k))
                else std_proto_member k))"

text \<open>
  A function of the table called on a plain object without arguments, as the conversion
  of the object to a string calls it: the text of the result when that is a primitive,
  \<open>None\<close> when it is an object. \<open>toLocaleString\<close> calls the object's \<open>toString\<close> in turn.
\<close>

definition std_call_plain :: "string \<Rightarrow> (string \<times> jsval) list \<Rightarrow> js_error + string option" where
  "std_call_plain v kvs =
     (if v = ''Object.prototype.toString'' then Inr (Some ''[object Object]'')
      else if v = ''Object.prototype.valueOf'' \<or> v = ''Object'' then Inr None
      else if v = ''Object.prototype.hasOwnProperty'' \<or> v = ''Object.prototype.propertyIsEnumerable''
      then Inr (Some (if map_of kvs ''undefined'' = None then ''false'' else ''true''))
      else if v = ''Object.prototype.isPrototypeOf'' then Inr (Some ''false'')
      else if v = ''Object.prototype.__lookupGetter__'' \<or> v = ''Object.prototype.__lookupSetter__''
      then Inr (Some ''undefined'')
      else Inl TypeError)"

definition std_call :: "string \<Rightarrow> (string \<times> jsval) list \<Rightarrow> js_error + string option" where
  "std_call v kvs =
     (if v = ''Object.prototype.toLocaleString''
      then (case map_of kvs ''toString'' of
              None \<Rightarrow> Inr (Some ''[object Object]'')
            | Some (JHost w) \<Rightarrow>
                if w = ''Object.prototype.toLocaleString'' then Inl RangeError
                else if w \<in> set std_functions then std_call_plain w kvs
                else Inl TypeError
            | Some _ \<Rightarrow> Inl TypeError)
      else std_call_plain v kvs)"

text \<open>
  A plain object in a template literal: the conversion calls the object's \<open>toString\<close>
  and then its \<open>valueOf\<close>, own or inherited, skips one that is not a function, takes the
  first result that is a primitive, and throws when there is none. A named value outside
  the table is taken not to be a function.
\<close>

definition std_method_text :: "jsval \<Rightarrow> (string \<times> jsval) list \<Rightarrow> js_error + string option" where
  "std_method_text m kvs =
     (case m of
        JHost v \<Rightarrow> if v \<in> set std_functions then std_call v kvs else Inr None
      | _ \<Rightarrow> Inr None)"

definition std_object_text :: "(string \<times> jsval) list \<Rightarrow> js_error + string" where
  "std_object_text kvs =
     (case std_method_text (case map_of kvs ''toString'' of
                              None \<Rightarrow> JHost ''Object.prototype.toString''
                            | Some m \<Rightarrow> m) kvs of
        Inl e \<Rightarrow> Inl e
      | Inr (Some t) \<Rightarrow> Inr t
      | Inr None \<Rightarrow>
          (case std_method_text (case map_of kvs ''valueOf'' of
                                   None \<Rightarrow> JHost ''Object.prototype.valueOf''
                                 | Some m \<Rightarrow> m) kvs of
             Inl e \<Rightarrow> Inl e
           | Inr (Some t) \<Rightarrow> Inr t
           | Inr None \<Rightarrow> Inl TypeError))"

text \<open>
  A named value in a template literal: a number is its digits, \<open>Object.prototype\<close> is
  \<open>[object Object]\<close>, \<open>String.prototype\<close> is the empty string, and a function is its
  native-code source text. Any other name is taken to be a function's.
\<close>

definition std_host_text :: "string \<Rightarrow> js_error + string" where
  "std_host_text v =
     (if v \<noteq> [] \<and> list_all (\<lambda>c. c \<in> set ''0123456789'') v then Inr v
      else if v = ''Object.prototype'' then Inr ''[object Object]''
      else if v = ''String.prototype'' then Inr []
      else if v = ''Function.prototype'' then Inr ''function () { [native code] }''
      else Inr (''function '' @ std_name v @ ''() { [native code] }''))"

definition std_host :: host where
  "std_host =
     \<lparr>proto_member = std_proto_member,
      string_member = std_string_member,
      host_member = std_host_member,
      host_truthy = (\<lambda>v. v \<noteq> ''0''),
      object_text = std_object_text,
      host_text = std_host_text,
      number_text = show_int\<rparr>"

section \<open>Example inputs\<close>

text \<open>
  A time stamp; a request as the host framework passes it, one without headers, and one
  whose \<open>Accept-Language\<close> header names a member every object inherits.
\<close>

definition now0 :: string where
  "now0 = ''2025-12-29T19:52:09.123Z''"

definition req_plain :: request where
  "req_plain =
     \<lparr>req_lang = None, req_language = None, req_headers = Some [], req_method = None,
      req_originalUrl = None, req_url = None, req_id = None, req_requestId = None\<rparr>"



text \<open>The error of the database scenario, and errors with other shapes.\<close>

definition err_database :: js_err where
  "err_database =
     \<lparr>err_status = Some 500, err_code = Some ''DATABASE_ERROR'',
      err_message = Some ''conn timeout'', err_errors = None, err_stack = None\<rparr>"

definition err_falsy :: js_err where
  "err_falsy =
     \<lparr>err_status = Some 0, err_code = Some [], err_message = Some [], err_errors = None,
      err_stack = None\<rparr>"















section \<open>Lemmas about the handler\<close>

lemma and_then_Inr [simp]: "and_then (Inr v) f = f v"
  by (simp add: and_then_def)

lemma and_then_Inl [simp]: "and_then (Inl e) f = Inl e"
  by (simp add: and_then_def)




text \<open>Once the steps that can throw have returned, the effects are determined.\<close>

lemma errorHandler_Inr:
  assumes "detect_lang req = Inr lang"
    and "possibleResponses_of h (getResponses c) lang = Inr pr"
    and "primary_message h pr (getPrefs c) (code_of err) (rawErrorMessage_of err) (err_errors err) = Inr m"
    and "(if \<not> truthy h m then fallback_message h pr (statusCode_of err) (code_of err) else Inr m) = Inr M"
    and "isUserError (statusCode_of err) (code_of err) \<or> (\<exists>t. to_text h M = Inr t)"
  shows "errorHandler h log c now err req =
     Inr ((if \<not> isUserError (statusCode_of err) (code_of err)
           then map (\<lambda>line. ConsoleLog (log (fst line) (snd line))) (error_report h now err req M)
           else [])
          @ [ResStatus (statusCode_of err),
             ResJson \<lparr>body_status = ''error'', body_code = code_of err, body_message = M\<rparr>])"
  using assms by (auto simp: errorHandler_def Let_def)

lemma errorHandler_Inr_cases:
  assumes "errorHandler h log c now err req = Inr effs"
  obtains lang pr m M where "detect_lang req = Inr lang"
    and "possibleResponses_of h (getResponses c) lang = Inr pr"
    and "primary_message h pr (getPrefs c) (code_of err) (rawErrorMessage_of err) (err_errors err) = Inr m"
    and "(if \<not> truthy h m then fallback_message h pr (statusCode_of err) (code_of err) else Inr m) = Inr M"
    and "isUserError (statusCode_of err) (code_of err) \<or> (\<exists>t. to_text h M = Inr t)"
proof -
  from assms obtain lang where l: "detect_lang req = Inr lang"
    by (cases "detect_lang req") (simp_all add: errorHandler_def Let_def)
  from assms l obtain pr where p: "possibleResponses_of h (getResponses c) lang = Inr pr"
    by (cases "possibleResponses_of h (getResponses c) lang") (simp_all add: errorHandler_def Let_def)
  from assms l p obtain m
    where m: "primary_message h pr (getPrefs c) (code_of err) (rawErrorMessage_of err) (err_errors err) = Inr m"
    by (cases "primary_message h pr (getPrefs c) (code_of err) (rawErrorMessage_of err) (err_errors err)")
       (simp_all add: errorHandler_def Let_def)
  from assms l p m obtain M
    where M: "(if \<not> truthy h m then fallback_message h pr (statusCode_of err) (code_of err) else Inr m) = Inr M"
    by (cases "if \<not> truthy h m then fallback_message h pr (statusCode_of err) (code_of err) else Inr m")
       (simp_all add: errorHandler_def Let_def)
  from assms l p m M have "isUserError (statusCode_of err) (code_of err) \<or> (\<exists>t. to_text h M = Inr t)"
    by (cases "to_text h M") (auto simp: errorHandler_def Let_def split: if_splits)
  with l p m M show thesis by (rule that)
qed












section \<open>The key functions\<close>

text \<open>
  When the object's own keys are distinct, as \<open>Object.keys\<close> returns them,
  \<open>AllowedKeys\<close> holds exactly when every own key is allowed and the \<open>in\<close> operator
  finds every required key. The count test never decides alone.
\<close>

lemma AllowedKeys_iff:
  assumes "distinct (Object_keys obj)"
  shows "AllowedKeys obj ks os =
     (set (Object_keys obj) \<subseteq> set ks \<union> set os \<and> (\<forall>k \<in> set ks. key_in k obj))"
proof -
  have le: "length (Object_keys obj) \<le> length (remdups (ks @ os))"
    if "set (Object_keys obj) \<subseteq> set ks \<union> set os"
  proof -
    have "length (Object_keys obj) = card (set (Object_keys obj))"
      using assms by (simp add: distinct_card)
    also have "\<dots> \<le> card (set (ks @ os))"
      using that by (intro card_mono) auto
    also have "\<dots> = length (remdups (ks @ os))"
      by (simp add: length_remdups_card_conv)
    finally show ?thesis .
  qed
  show ?thesis
    using le by (auto simp: AllowedKeys_def Let_def)
qed

text \<open>
  C6. \<open>AllowedKeys(obj, required, optional)\<close> is claimed to hold exactly when the keys
  of \<open>obj\<close> lie in \<open>required \<union> optional\<close> and every required key is a key of \<open>obj\<close>.
  The required keys are tested with the \<open>in\<close> operator, which also finds inherited
  members: for the empty object literal and the required key \<open>toString\<close> the function
  returns \<open>true\<close>, although \<open>toString\<close> is not among the object's keys.
\<close>

theorem AllowedKeys_inherited_key:
  "AllowedKeys (object_literal ([] :: (string \<times> jsval) list)) [''toString''] [] = True
   \<and> \<not> set [''toString''] \<subseteq> set (Object_keys (object_literal ([] :: (string \<times> jsval) list)))"
  by (simp add: AllowedKeys_def object_literal_def Object_keys_def key_in_def
        object_prototype_keys_def)

text \<open>
  C7. With \<open>max\<close> omitted, \<open>KeysInRange(obj, n)\<close> holds exactly when
  \<open>KeysInRangeDetailed(obj, n, n)\<close> is 0; with \<open>max\<close> omitted both functions test
  that the key count equals \<open>n\<close>; with \<open>max\<close> supplied \<open>KeysInRange\<close> tests
  \<open>min \<le> count \<le> max\<close>.
\<close>

theorem KeysInRange_exact_and_range:
  "KeysInRange obj n None = (KeysInRangeDetailed obj n (Some n) = 0)
   \<and> KeysInRange obj n None = (Keysamount obj = n)
   \<and> (KeysInRangeDetailed obj n None = 0) = (Keysamount obj = n)
   \<and> KeysInRange obj mn (Some mx) = (mn \<le> Keysamount obj \<and> Keysamount obj \<le> mx)"
  by (auto simp: KeysInRange_def KeysInRangeDetailed_def Let_def)

section \<open>The message store\<close>



section \<open>The error handler\<close>

text \<open>
  C1. In the database scenario (nothing configured, status 500, code
  \<open>DATABASE_ERROR\<close>, message \<open>conn timeout\<close>) the client-facing message is claimed to
  be the built-in text \<open>A database error occurred.\<close>. The body the handler sends is not
  that one.
\<close>

theorem database_error_scenario_counterexample:
  "last (projr (errorHandler std_host Coloredlog initial_config now0 err_database req_plain))
     \<noteq> ResJson \<lparr>body_status = ''error'', body_code = ''DATABASE_ERROR'',
                 body_message = JString ''A database error occurred.''\<rparr>"
  by code_simp

text \<open>
  C1, amended. In the database scenario the error is classified server-caused and the
  report is written, with the raw message \<open>conn timeout\<close> in its \<open>RawMessage\<close> line. The
  raw message is not empty, so it is the resolved message: the body sent to the client
  and the \<open>UserMessage\<close> line carry \<open>conn timeout\<close>. The built-in text
  \<open>A database error occurred.\<close> is sent when the same error has no message.
\<close>

theorem database_error_scenario:
  "errorHandler std_host Coloredlog initial_config now0 err_database req_plain =
     Inr [ConsoleLog [''===================== ERROR REPORT =====================''],
          ConsoleLog [''Time: 2025-12-29 19:52:09.123''],
          ConsoleLog [''%cStatus: 500'', ''color: magenta; font-weight: bold;''],
          ConsoleLog [''%cCode: DATABASE_ERROR'', ''color: magenta; font-weight: bold;''],
          ConsoleLog [''%cUserMessage: conn timeout'', ''color: cyan; font-weight: bold;''],
          ConsoleLog [''RawMessage: conn timeout''],
          ConsoleLog [''%cStack:'', ''color: gray; font-weight: bold;''],
          ConsoleLog [''%cN/A'', ''color: gray; font-weight: bold;''],
          ConsoleLog [''========================================================''],
          ResStatus 500,
          ResJson \<lparr>body_status = ''error'', body_code = ''DATABASE_ERROR'',
                   body_message = JString ''conn timeout''\<rparr>]
   \<and> isUserError (statusCode_of err_database) (code_of err_database) = False
   \<and> last (projr (errorHandler std_host Coloredlog initial_config now0
                    (err_database\<lparr>err_message := None\<rparr>) req_plain))
       = ResJson \<lparr>body_status = ''error'', body_code = ''DATABASE_ERROR'',
                  body_message = JString ''A database error occurred.''\<rparr>"
  by code_simp










text \<open>
  C10. A status that is absent or 0 resolves to 500, a code that is absent or empty to
  \<open>INTERNAL_SERVER_ERROR\<close>, and a message that is absent or empty to the empty string;
  the status and the code the handler sends are these resolved values.
\<close>

theorem falsy_fields_default:
  "(err_status err = None \<or> err_status err = Some 0 \<longrightarrow> statusCode_of err = 500)
   \<and> (err_code err = None \<or> err_code err = Some [] \<longrightarrow> code_of err = ''INTERNAL_SERVER_ERROR'')
   \<and> (err_message err = None \<or> err_message err = Some [] \<longrightarrow> rawErrorMessage_of err = [])
   \<and> (errorHandler h log c now err req = Inr effs \<longrightarrow>
        ResStatus (statusCode_of err) \<in> set effs
        \<and> (\<exists>m. ResJson \<lparr>body_status = ''error'', body_code = code_of err, body_message = m\<rparr>
               \<in> set effs))"
proof (intro conjI impI)
  assume "err_status err = None \<or> err_status err = Some 0"
  then show "statusCode_of err = 500" by (auto simp: statusCode_of_def)
next
  assume "err_code err = None \<or> err_code err = Some []"
  then show "code_of err = ''INTERNAL_SERVER_ERROR''" by (auto simp: code_of_def str_or_default_def)
next
  assume "err_message err = None \<or> err_message err = Some []"
  then show "rawErrorMessage_of err = []" by (auto simp: rawErrorMessage_of_def str_or_default_def)
next
  assume run: "errorHandler h log c now err req = Inr effs"
  from run obtain lang pr m M where *: "detect_lang req = Inr lang"
    "possibleResponses_of h (getResponses c) lang = Inr pr"
    "primary_message h pr (getPrefs c) (code_of err) (rawErrorMessage_of err) (err_errors err) = Inr m"
    "(if \<not> truthy h m then fallback_message h pr (statusCode_of err) (code_of err) else Inr m) = Inr M"
    "isUserError (statusCode_of err) (code_of err) \<or> (\<exists>t. to_text h M = Inr t)"
    by (rule errorHandler_Inr_cases)
  from errorHandler_Inr [OF *, of log now] run
  show "ResStatus (statusCode_of err) \<in> set effs" by auto
  from errorHandler_Inr [OF *, of log now] run
  show "\<exists>m. ResJson \<lparr>body_status = ''error'', body_code = code_of err, body_message = m\<rparr> \<in> set effs"
    by auto
qed

theorem falsy_fields_default_witness:
  "statusCode_of err_falsy = 500
   \<and> code_of err_falsy = ''INTERNAL_SERVER_ERROR''
   \<and> rawErrorMessage_of err_falsy = []
   \<and> ResStatus 500 \<in> set (projr (errorHandler std_host Coloredlog initial_config now0 err_falsy req_plain))
   \<and> (\<exists>m. ResJson \<lparr>body_status = ''error'', body_code = ''INTERNAL_SERVER_ERROR'', body_message = m\<rparr>
           \<in> set (projr (errorHandler std_host Coloredlog initial_config now0 err_falsy req_plain)))"
proof -
  have s: "err_status err_falsy = None \<or> err_status err_falsy = Some 0"
    and k: "err_code err_falsy = None \<or> err_code err_falsy = Some []"
    and t: "err_message err_falsy = None \<or> err_message err_falsy = Some []"
    by (simp_all add: err_falsy_def)
  have "\<not> isl (errorHandler std_host Coloredlog initial_config now0 err_falsy req_plain)"
    by code_simp
  then obtain effs
    where e: "errorHandler std_host Coloredlog initial_config now0 err_falsy req_plain = Inr effs"
    by (cases "errorHandler std_host Coloredlog initial_config now0 err_falsy req_plain") simp_all
  note r = falsy_fields_default [of err_falsy std_host Coloredlog initial_config now0 req_plain effs]
  from r s have a: "statusCode_of err_falsy = 500" by blast
  from r k have b: "code_of err_falsy = ''INTERNAL_SERVER_ERROR''" by blast
  from r t have c: "rawErrorMessage_of err_falsy = []" by blast
  from r e have d: "ResStatus (statusCode_of err_falsy) \<in> set effs
      \<and> (\<exists>m. ResJson \<lparr>body_status = ''error'', body_code = code_of err_falsy, body_message = m\<rparr>
             \<in> set effs)"
    by blast
  from d show ?thesis
    unfolding a b c e by simp
qed

section \<open>The colours of the report\<close>

lemma isValid_red: "isValid ''red'' = False"
  by code_simp

lemma isValid_yellow: "isValid ''yellow'' = False"
  by code_simp

lemma isValid_white: "isValid ''white'' = False"
  by code_simp

lemma isValid_ansi_red: "isValid_ansi ''red'' = False"
  by code_simp

lemma isValid_ansi_yellow: "isValid_ansi ''yellow'' = False"
  by code_simp

lemma isValid_ansi_white: "isValid_ansi ''white'' = False"
  by code_simp

lemma isValid_others: "isValid ''magenta'' \<and> isValid ''cyan'' \<and> isValid ''gray''"
  by code_simp

text \<open>
  C5. Every line of the report is claimed to be passed with a colour that the three
  patterns accept, and to be printed styled. The named pattern ends at
  \<open>palevioletred\<close>: \<open>red\<close>, \<open>yellow\<close> and \<open>white\<close> match none of the patterns, in either
  variant of \<open>Coloredlog\<close>. The banner, which is the first line of the report and is
  passed with \<open>red\<close>, is printed as the bare message.
\<close>

theorem report_colours_not_accepted:
  "hd (error_report h now err req m)
     = (''===================== ERROR REPORT ====================='', ''red'')
   \<and> \<not> isValid ''red'' \<and> \<not> isValid ''yellow'' \<and> \<not> isValid ''white''
   \<and> \<not> isValid_ansi ''red'' \<and> \<not> isValid_ansi ''yellow'' \<and> \<not> isValid_ansi ''white''
   \<and> Coloredlog line ''red'' = [line]
   \<and> Coloredlog_ansi env line ''red'' False = [line]
   \<and> isValid ''magenta'' \<and> isValid ''cyan'' \<and> isValid ''gray''"
  using isValid_others
  by (simp add: error_report_def Coloredlog_def Coloredlog_ansi_def isValid_red isValid_yellow
        isValid_white isValid_ansi_red isValid_ansi_yellow isValid_ansi_white)

end
